theory Spec2Isabelle
  imports Complex_Main "HOL-Library.Sublist"
begin

section \<open>Python values and built-ins used by the adapters\<close>

text \<open>
  The adapters of \<^verbatim>\<open>API_Google.py\<close> translate between a tool-calling convention and the
  decoded JSON of three HTTP endpoints. A Python \<^verbatim>\<open>str\<close> is a \<^typ>\<open>string\<close>; the characters
  of the model are the Python characters with a code point below 256. Python's unbounded
  \<^verbatim>\<open>int\<close> is \<^typ>\<open>int\<close>. A \<^verbatim>\<open>float\<close> is a sign together with the exact rational value of
  the binary64 number, or an infinity, or a NaN.
\<close>

datatype pyfloat = Finite bool rat | Infinity bool | NaN

text \<open>
  What \<^verbatim>\<open>response.json()\<close> returns: a decoded JSON document. A \<^verbatim>\<open>dict\<close> is an association
  list in insertion order, with distinct keys.
\<close>

datatype json =
    JNull
  | JBool bool
  | JInt int
  | JFloat pyfloat
  | JStr string
  | JList "json list"
  | JObj "(string \<times> json) list"

text \<open>The exceptions that the code can raise; \<open>RequestException\<close> carries \<^verbatim>\<open>str(e)\<close>.\<close>

datatype py_error =
    ValueError string
  | KeyError json
  | IndexError
  | TypeError
  | AttributeError
  | RequestException string

type_synonym 'a result = "py_error + 'a"

text \<open>
  The two built-ins whose output the code only ever pastes into a message: \<^verbatim>\<open>repr\<close> of a
  \<^verbatim>\<open>float\<close> (the shortest decimal string that reads back as the same number) and \<^verbatim>\<open>repr\<close> of a
  \<^verbatim>\<open>str\<close> (quoting and escaping). They are parameters of the model.
\<close>

record py_builtins =
  float_repr :: "pyfloat \<Rightarrow> string"
  str_repr :: "string \<Rightarrow> string"

subsection \<open>Integers to text\<close>

definition digit_char :: "nat \<Rightarrow> char" where
  "digit_char d = ''0123456789'' ! d"

function str_nat :: "nat \<Rightarrow> string" where
  "str_nat n = (if n < 10 then [digit_char n] else str_nat (n div 10) @ [digit_char (n mod 10)])"
  by pat_completeness auto
termination
  by (relation "measure id") auto

definition str_int :: "int \<Rightarrow> string" where
  "str_int i = (if i < 0 then CHR ''-'' # str_nat (nat (- i)) else str_nat (nat i))"

subsection \<open>Joining and splitting\<close>

fun join :: "string \<Rightarrow> string list \<Rightarrow> string" where
  "join sep [] = []"
| "join sep [x] = x"
| "join sep (x # y # ys) = x @ sep @ join sep (y # ys)"

text \<open>\<^verbatim>\<open>s.split(c)\<close> for a one-character separator.\<close>

fun split_on :: "char \<Rightarrow> string \<Rightarrow> string list" where
  "split_on c [] = [[]]"
| "split_on c (x # xs) =
     (if x = c then [] # split_on c xs
      else (case split_on c xs of [] \<Rightarrow> [[x]] | y # ys \<Rightarrow> (x # y) # ys))"

text \<open>\<^verbatim>\<open>str.isspace\<close> on one character, and \<^verbatim>\<open>s.strip()\<close>.\<close>

definition is_space :: "char \<Rightarrow> bool" where
  "is_space c = (let n = (of_char c :: nat) in
     (9 \<le> n \<and> n \<le> 13) \<or> (28 \<le> n \<and> n \<le> 32) \<or> n = 133 \<or> n = 160)"

definition strip :: "string \<Rightarrow> string" where
  "strip s = rev (dropWhile is_space (rev (dropWhile is_space s)))"

text \<open>\<^verbatim>\<open>sub in s\<close> for two strings.\<close>

fun is_substring :: "string \<Rightarrow> string \<Rightarrow> bool" where
  "is_substring sub [] = (sub = [])"
| "is_substring sub (x # xs) = (take (length sub) (x # xs) = sub \<or> is_substring sub xs)"

subsection \<open>Formatting values\<close>

text \<open>
  \<^verbatim>\<open>repr(v)\<close> and \<^verbatim>\<open>str(v)\<close> of a decoded JSON value; an f-string field \<^verbatim>\<open>{v}\<close> is
  \<^verbatim>\<open>str(v)\<close>. They differ on a \<^verbatim>\<open>str\<close> only.
\<close>

fun py_repr :: "py_builtins \<Rightarrow> json \<Rightarrow> string" where
  "py_repr B JNull = ''None''"
| "py_repr B (JBool b) = (if b then ''True'' else ''False'')"
| "py_repr B (JInt i) = str_int i"
| "py_repr B (JFloat x) = float_repr B x"
| "py_repr B (JStr s) = str_repr B s"
| "py_repr B (JList xs) = ''['' @ join '', '' (map (py_repr B) xs) @ '']''"
| "py_repr B (JObj kvs) =
     ''{'' @ join '', '' (map (\<lambda>kv. str_repr B (fst kv) @ '': '' @ py_repr B (snd kv)) kvs) @ ''}''"

definition py_str :: "py_builtins \<Rightarrow> json \<Rightarrow> string" where
  "py_str B v = (case v of JStr s \<Rightarrow> s | _ \<Rightarrow> py_repr B v)"

text \<open>Truth value of a decoded JSON value (\<^verbatim>\<open>if not places\<close>).\<close>

fun float_is_zero :: "pyfloat \<Rightarrow> bool" where
  "float_is_zero (Finite s q) = (q = 0)"
| "float_is_zero _ = False"

fun truthy :: "json \<Rightarrow> bool" where
  "truthy JNull = False"
| "truthy (JBool b) = b"
| "truthy (JInt i) = (i \<noteq> 0)"
| "truthy (JFloat x) = (\<not> float_is_zero x)"
| "truthy (JStr s) = (s \<noteq> [])"
| "truthy (JList xs) = (xs \<noteq> [])"
| "truthy (JObj kvs) = (kvs \<noteq> [])"

subsection \<open>Structural access\<close>

text \<open>\<^verbatim>\<open>v[key]\<close> with a \<^verbatim>\<open>str\<close> key.\<close>

fun getitem :: "json \<Rightarrow> string \<Rightarrow> json result" where
  "getitem (JObj kvs) k = (case map_of kvs k of None \<Rightarrow> Inl (KeyError (JStr k)) | Some v \<Rightarrow> Inr v)"
| "getitem _ k = Inl TypeError"

text \<open>\<^verbatim>\<open>v[0]\<close>: a dict decoded from JSON has string keys only, so the key \<open>0\<close> is never there.\<close>

fun getitem0 :: "json \<Rightarrow> json result" where
  "getitem0 (JList []) = Inl IndexError"
| "getitem0 (JList (x # xs)) = Inr x"
| "getitem0 (JStr []) = Inl IndexError"
| "getitem0 (JStr (c # cs)) = Inr (JStr [c])"
| "getitem0 (JObj kvs) = Inl (KeyError (JInt 0))"
| "getitem0 _ = Inl TypeError"

text \<open>\<^verbatim>\<open>v.get(key, default)\<close>: a method of \<^verbatim>\<open>dict\<close> only.\<close>

fun dict_get :: "json \<Rightarrow> string \<Rightarrow> json \<Rightarrow> json result" where
  "dict_get (JObj kvs) k d = Inr (case map_of kvs k of None \<Rightarrow> d | Some v \<Rightarrow> v)"
| "dict_get _ k d = Inl AttributeError"

text \<open>\<^verbatim>\<open>key in v\<close> with a \<^verbatim>\<open>str\<close> key.\<close>

fun contains :: "json \<Rightarrow> string \<Rightarrow> bool result" where
  "contains (JObj kvs) k = Inr (k \<in> fst ` set kvs)"
| "contains (JList xs) k = Inr (JStr k \<in> set xs)"
| "contains (JStr s) k = Inr (is_substring k s)"
| "contains _ k = Inl TypeError"

text \<open>\<^verbatim>\<open>len(v)\<close>.\<close>

fun py_len :: "json \<Rightarrow> nat result" where
  "py_len (JList xs) = Inr (length xs)"
| "py_len (JStr s) = Inr (length s)"
| "py_len (JObj kvs) = Inr (length kvs)"
| "py_len _ = Inl TypeError"

text \<open>The elements that \<^verbatim>\<open>for x in v\<close> visits.\<close>

fun py_iter :: "json \<Rightarrow> json list result" where
  "py_iter (JList xs) = Inr xs"
| "py_iter (JStr s) = Inr (map (\<lambda>c. JStr [c]) s)"
| "py_iter (JObj kvs) = Inr (map (\<lambda>kv. JStr (fst kv)) kvs)"
| "py_iter _ = Inl TypeError"

subsection \<open>Running a fallible step after another\<close>

definition rbind :: "'a result \<Rightarrow> ('a \<Rightarrow> 'b result) \<Rightarrow> 'b result" where
  "rbind m f = (case m of Inl e \<Rightarrow> Inl e | Inr x \<Rightarrow> f x)"

subsection \<open>Reading a float: \<^verbatim>\<open>float(s)\<close>\<close>

text \<open>
  The value of a decimal numeral is rounded to the nearest binary64 number, ties to the
  even significand; a magnitude that rounds to \<open>2 ^ 1024\<close> or more is an infinity.
\<close>

definition pow2 :: "int \<Rightarrow> rat" where
  "pow2 e = (if 0 \<le> e then 2 ^ nat e else 1 / 2 ^ nat (- e))"

function bit_length :: "int \<Rightarrow> int" where
  "bit_length n = (if n \<le> 0 then 0 else 1 + bit_length (n div 2))"
  by pat_completeness auto
termination
  by (relation "measure nat") auto

definition floor_log2 :: "rat \<Rightarrow> int" where
  "floor_log2 q = (let (p, d) = quotient_of q;
       e = bit_length p - bit_length d
     in if pow2 e \<le> q then e else e - 1)"

definition round_half_even :: "rat \<Rightarrow> int" where
  "round_half_even q = (let f = \<lfloor>q\<rfloor>; r = q - of_int f
     in if r < 1 / 2 then f else if 1 / 2 < r then f + 1 else if even f then f else f + 1)"

definition round_binary64 :: "bool \<Rightarrow> rat \<Rightarrow> pyfloat" where
  "round_binary64 neg q =
     (if q = 0 then Finite neg 0
      else let t = max (floor_log2 q) (- 1022) - 52;
               v = of_int (round_half_even (q / pow2 t)) * pow2 t
           in if pow2 1024 \<le> v then Infinity neg else Finite neg v)"

definition is_digit :: "char \<Rightarrow> bool" where
  "is_digit c = (let n = (of_char c :: nat) in 48 \<le> n \<and> n \<le> 57)"

definition digit_val :: "char \<Rightarrow> int" where
  "digit_val c = of_char c - 48"

text \<open>\<^verbatim>\<open>digitpart ::= digit (["_"] digit)*\<close>: what may follow a digit, and the whole part.\<close>

fun digitpart_tail :: "string \<Rightarrow> bool" where
  "digitpart_tail [] = True"
| "digitpart_tail [c] = is_digit c"
| "digitpart_tail (c # d # ds) =
     (if is_digit c then digitpart_tail (d # ds)
      else c = CHR ''_'' \<and> is_digit d \<and> digitpart_tail ds)"

definition is_digitpart :: "string \<Rightarrow> bool" where
  "is_digitpart s = (case s of [] \<Rightarrow> False | c # cs \<Rightarrow> is_digit c \<and> digitpart_tail cs)"

definition digits_val :: "string \<Rightarrow> int" where
  "digits_val s = foldl (\<lambda>a c. 10 * a + digit_val c) 0 (filter is_digit s)"

definition is_exp_mark :: "char \<Rightarrow> bool" where
  "is_exp_mark c = (c = CHR ''e'' \<or> c = CHR ''E'')"

text \<open>
  \<^verbatim>\<open>number ::= [digitpart] "." digitpart | digitpart ["."]\<close>,
  \<^verbatim>\<open>exponent ::= ("e" | "E") ["+" | "-"] digitpart\<close>,
  \<^verbatim>\<open>floatnumber ::= number [exponent]\<close>: the exact value, or \<open>None\<close> where the text is
  not a \<^verbatim>\<open>floatnumber\<close>.
\<close>

definition float_number :: "string \<Rightarrow> rat option" where
  "float_number s =
     (let mant = takeWhile (\<lambda>c. \<not> is_exp_mark c) s;
          expo = dropWhile (\<lambda>c. \<not> is_exp_mark c) s;
          ip = takeWhile (\<lambda>c. c \<noteq> CHR ''.'') mant;
          dotted = dropWhile (\<lambda>c. c \<noteq> CHR ''.'') mant;
          fp = drop 1 dotted;
          mant_ok = (if dotted = [] then is_digitpart ip
                     else (is_digitpart fp \<and> (ip = [] \<or> is_digitpart ip))
                        \<or> (is_digitpart ip \<and> fp = []));
          ex = drop 1 expo;
          ex_neg = (case ex of [] \<Rightarrow> False | c # cs \<Rightarrow> c = CHR ''-'');
          ex_digits = (case ex of [] \<Rightarrow> []
                       | c # cs \<Rightarrow> if c = CHR ''-'' \<or> c = CHR ''+'' then cs else ex);
          expo_ok = (expo = [] \<or> is_digitpart ex_digits);
          frac_len = length (filter is_digit fp);
          m = rat_of_int (digits_val (ip @ fp)) / 10 ^ frac_len;
          e = nat (digits_val ex_digits)
      in if mant_ok \<and> expo_ok
         then Some (if ex_neg then m / 10 ^ e else m * 10 ^ e)
         else None)"

text \<open>
  The blanks that \<^verbatim>\<open>float\<close> skips on both sides of the number: fewer than \<^verbatim>\<open>str.strip\<close>
  removes, the separators with the codes 28 to 31 are not among them.
\<close>

definition is_float_space :: "char \<Rightarrow> bool" where
  "is_float_space c = (let n = (of_char c :: nat) in
     (9 \<le> n \<and> n \<le> 13) \<or> n = 32 \<or> n = 133 \<or> n = 160)"

definition lower :: "char \<Rightarrow> char" where
  "lower c = (let n = (of_char c :: nat) in if 65 \<le> n \<and> n \<le> 90 then char_of (n + 32) else c)"

definition float_of_str :: "string \<Rightarrow> pyfloat option" where
  "float_of_str s0 =
     (let s = rev (dropWhile is_float_space (rev (dropWhile is_float_space s0)));
          neg = (case s of [] \<Rightarrow> False | c # cs \<Rightarrow> c = CHR ''-'');
          body = (case s of [] \<Rightarrow> []
                  | c # cs \<Rightarrow> if c = CHR ''-'' \<or> c = CHR ''+'' then cs else s);
          low = map lower body
      in if low = ''inf'' \<or> low = ''infinity'' then Some (Infinity neg)
         else if low = ''nan'' then Some NaN
         else map_option (round_binary64 neg) (float_number body))"

text \<open>\<^verbatim>\<open>float(s)\<close> raises \<^verbatim>\<open>ValueError\<close> on text that is not a number.\<close>

definition py_float :: "string \<Rightarrow> pyfloat result" where
  "py_float s = (case float_of_str s of
       None \<Rightarrow> Inl (ValueError ''could not convert string to float'')
     | Some x \<Rightarrow> Inr x)"

section \<open>The process environment and the network\<close>

text \<open>\<^verbatim>\<open>os.environ\<close>, after \<^verbatim>\<open>load_dotenv()\<close> has run.\<close>

type_synonym environ = "string \<rightharpoonup> string"

text \<open>
  One \<^verbatim>\<open>requests.get\<close> call: the URL, the query parameters in insertion order, the
  timeout in seconds when one is given, and the extra headers.
\<close>

record http_request =
  req_url :: string
  req_params :: "(string \<times> json) list"
  req_timeout :: "int option"
  req_headers :: "(string \<times> string) list"

text \<open>
  What the provider does with a request. Either \<^verbatim>\<open>requests.get\<close> raises a
  \<^verbatim>\<open>RequestException\<close> (its text is kept), or a response arrives: the text of the
  \<^verbatim>\<open>HTTPError\<close> that \<^verbatim>\<open>raise_for_status()\<close> raises when the status is an error status, and
  what \<^verbatim>\<open>json()\<close> does, which is to raise (a \<^verbatim>\<open>RequestException\<close> again, in the
  \<^verbatim>\<open>requests\<close> library from version 2.27) or to return the decoded body.
\<close>

datatype http_outcome =
    Request_Failed string
  | Reply "string option" "string + json"

type_synonym provider = "http_request \<Rightarrow> http_outcome"

text \<open>What a call leaves behind: the requests sent and the lines printed, oldest first.\<close>

record world =
  sent :: "http_request list"
  stdout :: "string list"

definition requests_get :: "provider \<Rightarrow> http_request \<Rightarrow> world \<Rightarrow> http_outcome \<times> world" where
  "requests_get prov req w = (prov req, w\<lparr>sent := sent w @ [req]\<rparr>)"

definition py_print :: "string \<Rightarrow> world \<Rightarrow> world" where
  "py_print line w = w\<lparr>stdout := stdout w @ [line]\<rparr>"

text \<open>
  \<^verbatim>\<open>response.raise_for_status(); response.json()\<close> inside
  \<^verbatim>\<open>try ... except requests.RequestException as e\<close>: the text of the exception caught, or
  the decoded body.
\<close>

definition checked_json :: "http_outcome \<Rightarrow> string + json" where
  "checked_json out = (case out of
       Request_Failed msg \<Rightarrow> Inl msg
     | Reply status body \<Rightarrow> (case status of Some msg \<Rightarrow> Inl msg | None \<Rightarrow> body))"

section \<open>The web search adapter\<close>

record GoogleSearchTool =
  api_key :: "string option"
  cx :: "string option"

text \<open>\<^verbatim>\<open>a or b\<close> where \<open>a\<close> is a \<^verbatim>\<open>str\<close> or \<^verbatim>\<open>None\<close>: the empty string is false.\<close>

definition py_or :: "string option \<Rightarrow> string option \<Rightarrow> string option" where
  "py_or a b = (case a of None \<Rightarrow> b | Some s \<Rightarrow> if s = [] then b else Some s)"

definition GoogleSearchTool_init :: "environ \<Rightarrow> string option \<Rightarrow> string option \<Rightarrow> GoogleSearchTool" where
  "GoogleSearchTool_init env api_key_arg cx_arg =
     \<lparr>api_key = py_or api_key_arg (env ''GOOGLE_API_KEY''),
      cx = py_or cx_arg (env ''GOOGLE_CSE_ID'')\<rparr>"

definition no_results_message :: "string \<Rightarrow> int option \<Rightarrow> string" where
  "no_results_message query filter_year =
     (let year_filter_message =
            (case filter_year of None \<Rightarrow> [] | Some y \<Rightarrow> '' with filter year='' @ str_int y)
      in ''No results found for '' @ [CHR 0x27] @ query @ [CHR 0x27] @ year_filter_message
         @ ''. Try with a more general query, or remove the year filter.'')"

text \<open>The body of the loop over \<^verbatim>\<open>enumerate(results["items"])\<close>, and the loop.\<close>

definition formatted_result :: "py_builtins \<Rightarrow> nat \<Rightarrow> json \<Rightarrow> string result" where
  "formatted_result B idx item =
     rbind (dict_get item ''title'' (JStr ''No title'')) (\<lambda>title.
     rbind (dict_get item ''link'' (JStr ''#'')) (\<lambda>link.
     Inr (str_int (int idx + 1) @ ''. '' @ py_str B link)))"

fun web_snippets :: "py_builtins \<Rightarrow> string list \<Rightarrow> nat \<Rightarrow> json list \<Rightarrow> string list result" where
  "web_snippets B acc idx [] = Inr acc"
| "web_snippets B acc idx (item # rest) =
     (case formatted_result B idx item of
        Inl e \<Rightarrow> Inl e
      | Inr line \<Rightarrow> web_snippets B (acc @ [line]) (idx + 1) rest)"

text \<open>
  Everything after the request: the test
  \<^verbatim>\<open>"items" not in results or len(results["items"]) == 0\<close> (the second operand is not
  evaluated when the first is true), then the list.
\<close>

definition search_output :: "py_builtins \<Rightarrow> string \<Rightarrow> int option \<Rightarrow> json \<Rightarrow> string result" where
  "search_output B query filter_year results =
     rbind (contains results ''items'') (\<lambda>has_items.
     rbind (if \<not> has_items then Inr True
            else rbind (getitem results ''items'') (\<lambda>items.
                 rbind (py_len items) (\<lambda>n. Inr (n = 0)))) (\<lambda>empty.
     if empty then Inr (no_results_message query filter_year)
     else rbind (getitem results ''items'') (\<lambda>items.
          rbind (py_iter items) (\<lambda>xs.
          rbind (web_snippets B [] 0 xs) (\<lambda>snippets.
          Inr (''## Search Results'' @ [CHR 0x0A] @ join [CHR 0x0A, CHR 0x0A] snippets))))))"

definition search_params :: "string \<Rightarrow> string \<Rightarrow> string \<Rightarrow> int option \<Rightarrow> (string \<times> json) list" where
  "search_params key cxv query filter_year =
     [(''key'', JStr key), (''cx'', JStr cxv), (''q'', JStr query)]
     @ (case filter_year of None \<Rightarrow> []
        | Some y \<Rightarrow> [(''sort'', JStr ''date''), (''dateRestrict'', JStr (''y'' @ str_int y))])"

definition search_request :: "string \<Rightarrow> string \<Rightarrow> string \<Rightarrow> int option \<Rightarrow> http_request" where
  "search_request key cxv query filter_year =
     \<lparr>req_url = ''https://www.googleapis.com/customsearch/v1'',
      req_params = search_params key cxv query filter_year,
      req_timeout = Some 10, req_headers = []\<rparr>"

definition GoogleSearchTool_forward ::
  "py_builtins \<Rightarrow> provider \<Rightarrow> GoogleSearchTool \<Rightarrow> string \<Rightarrow> int option \<Rightarrow> world \<Rightarrow> string result \<times> world" where
  "GoogleSearchTool_forward B prov self query filter_year w =
     (case api_key self of
        None \<Rightarrow> (Inl (ValueError
          ''Missing Google API key. Make sure you have 'GOOGLE_API_KEY' in your env variables.''), w)
      | Some key \<Rightarrow>
     (case cx self of
        None \<Rightarrow> (Inl (ValueError
          ''Missing Custom Search Engine ID. Make sure you have 'GOOGLE_CSE_ID' in your env variables.''), w)
      | Some cxv \<Rightarrow>
        (let (out, w1) = requests_get prov (search_request key cxv query filter_year) w
         in case checked_json out of
              Inl msg \<Rightarrow> (Inl (ValueError
                (''Error making request to Google Custom Search API: '' @ msg)), w1)
            | Inr results \<Rightarrow> (search_output B query filter_year results, w1))))"

section \<open>The places adapter\<close>

record GooglePlacesTool =
  google_api_key :: "string option"
  API_TYPE :: string
  url :: string
  default_lat :: pyfloat
  default_lng :: pyfloat
  default_radius :: int

text \<open>
  \<^verbatim>\<open>os.getenv("GOOGLE_API_KEY", api_key)\<close>: the second argument is used only when the
  variable is not set. The float literals \<^verbatim>\<open>44.8176\<close> and \<^verbatim>\<open>20.4633\<close> are the binary64
  numbers nearest to these decimals.
\<close>

definition GooglePlacesTool_init :: "environ \<Rightarrow> string option \<Rightarrow> GooglePlacesTool" where
  "GooglePlacesTool_init env api_key_arg =
     \<lparr>google_api_key = (case env ''GOOGLE_API_KEY'' of Some v \<Rightarrow> Some v | None \<Rightarrow> api_key_arg),
      API_TYPE = ''textsearch'',
      url = ''https://maps.googleapis.com/maps/api/place/'' @ ''textsearch'' @ ''/json'',
      default_lat = round_binary64 False (448176 / 10000),
      default_lng = round_binary64 False (204633 / 10000),
      default_radius = 5000\<rparr>"

text \<open>\<^verbatim>\<open>lat_str, lng_str = parts\<close> raises \<^verbatim>\<open>ValueError\<close> unless there are exactly two parts.\<close>

definition unpack2 :: "string list \<Rightarrow> (string \<times> string) result" where
  "unpack2 parts = (case parts of
       [a, b] \<Rightarrow> Inr (a, b)
     | [] \<Rightarrow> Inl (ValueError ''not enough values to unpack'')
     | [a] \<Rightarrow> Inl (ValueError ''not enough values to unpack'')
     | _ \<Rightarrow> Inl (ValueError ''too many values to unpack''))"

text \<open>The body of the \<^verbatim>\<open>try\<close> in \<^verbatim>\<open>_parse_location\<close>.\<close>

definition parse_location_try :: "string \<Rightarrow> (pyfloat \<times> pyfloat) result" where
  "parse_location_try location =
     rbind (unpack2 (split_on CHR '','' location)) (\<lambda>(lat_str, lng_str).
     rbind (py_float (strip lat_str)) (\<lambda>lat.
     rbind (py_float (strip lng_str)) (\<lambda>lng.
     Inr (lat, lng))))"

text \<open>
  \<^verbatim>\<open>_parse_location\<close>: \<^verbatim>\<open>except (ValueError, TypeError): pass\<close> lets any other exception
  through.
\<close>

definition parse_location :: "GooglePlacesTool \<Rightarrow> string option \<Rightarrow> (pyfloat \<times> pyfloat) result" where
  "parse_location self location =
     (case location of
        None \<Rightarrow> Inr (default_lat self, default_lng self)
      | Some loc \<Rightarrow>
          if loc \<noteq> [] \<and> CHR '','' \<in> set loc
          then (case parse_location_try loc of
                  Inr p \<Rightarrow> Inr p
                | Inl (ValueError m) \<Rightarrow> Inr (default_lat self, default_lng self)
                | Inl TypeError \<Rightarrow> Inr (default_lat self, default_lng self)
                | Inl e \<Rightarrow> Inl e)
          else Inr (default_lat self, default_lng self))"

text \<open>
  The first four lines of \<^verbatim>\<open>_api_request\<close>, whose parameters \<open>lat\<close> and \<open>lng\<close> default to
  \<^verbatim>\<open>None\<close>: the second \<^verbatim>\<open>if\<close> assigns to \<open>lat\<close>.
\<close>

definition api_request_defaults ::
  "GooglePlacesTool \<Rightarrow> pyfloat option \<Rightarrow> pyfloat option \<Rightarrow> pyfloat option \<times> pyfloat option" where
  "api_request_defaults self lat lng =
     (let lat1 = (if lat = None then Some (default_lat self) else lat);
          lat2 = (if lng = None then Some (default_lng self) else lat1)
      in (lat2, lng))"

definition format_opt_float :: "py_builtins \<Rightarrow> pyfloat option \<Rightarrow> string" where
  "format_opt_float B x = (case x of None \<Rightarrow> ''None'' | Some v \<Rightarrow> float_repr B v)"

definition places_params ::
  "py_builtins \<Rightarrow> GooglePlacesTool \<Rightarrow> string \<Rightarrow> pyfloat option \<Rightarrow> pyfloat option \<Rightarrow> int \<Rightarrow> (string \<times> json) list" where
  "places_params B self query lat lng radius =
     [(''key'', (case google_api_key self of None \<Rightarrow> JNull | Some k \<Rightarrow> JStr k))]
     @ (if API_TYPE self = ''findplacefromtext''
        then [(''input'', JStr query),
              (''inputtype'', JStr ''textquery''),
              (''fields'', JStr ''formatted_address,name,place_id,geometry,types,rating,user_ratings_total''),
              (''locationbias'', JStr (''circle:'' @ str_int radius @ ''@''
                 @ format_opt_float B lat @ '','' @ format_opt_float B lng))]
        else [(''query'', JStr query),
              (''location'', JStr (format_opt_float B lat @ '','' @ format_opt_float B lng)),
              (''radius'', JInt radius)])"

definition places_request ::
  "py_builtins \<Rightarrow> GooglePlacesTool \<Rightarrow> string \<Rightarrow> pyfloat option \<Rightarrow> pyfloat option \<Rightarrow> int \<Rightarrow> http_request" where
  "places_request B self query lat lng radius =
     \<lparr>req_url = url self, req_params = places_params B self query lat lng radius,
      req_timeout = Some 10, req_headers = []\<rparr>"

definition api_request ::
  "py_builtins \<Rightarrow> provider \<Rightarrow> GooglePlacesTool \<Rightarrow> string \<Rightarrow> pyfloat option \<Rightarrow> pyfloat option \<Rightarrow> int
     \<Rightarrow> world \<Rightarrow> json result \<times> world" where
  "api_request B prov self query lat0 lng0 radius w =
     (let (lat, lng) = api_request_defaults self lat0 lng0;
          (out, w1) = requests_get prov (places_request B self query lat lng radius) w
      in case checked_json out of
           Inl msg \<Rightarrow> (Inl (ValueError (''Error making request to Google Places API: '' @ msg)), w1)
         | Inr data \<Rightarrow>
             (let w2 = py_print (py_str B data) w1
              in if API_TYPE self = ''findplacefromtext''
                 then (dict_get data ''candidates'' (JList []), w2)
                 else (dict_get data ''results'' (JList []), w2)))"

text \<open>One dictionary of the list that \<^verbatim>\<open>_format_places\<close> returns.\<close>

record place_info =
  name :: json
  address :: json
  rating_info :: string
  place_id :: json

text \<open>\<^verbatim>\<open>forward\<close> returns a \<^verbatim>\<open>str\<close> when nothing was found and a \<^verbatim>\<open>list\<close> otherwise.\<close>

datatype places_output = Py_str string | Py_list "place_info list"

definition format_place :: "py_builtins \<Rightarrow> json \<Rightarrow> place_info result" where
  "format_place B place =
     rbind (dict_get place ''name'' (JStr ''Unnamed location'')) (\<lambda>nm.
     rbind (dict_get place ''formatted_address'' (JStr ''No address available'')) (\<lambda>addr.
     rbind (dict_get place ''place_id'' (JStr ''No ID'')) (\<lambda>pid.
     rbind (contains place ''rating'') (\<lambda>has_rating.
     rbind (if has_rating
            then rbind (dict_get place ''rating'' (JInt 0)) (\<lambda>rating.
                 rbind (dict_get place ''user_ratings_total'' (JInt 0)) (\<lambda>total_ratings.
                 Inr ([CHR 0x0A] @ ''Rating: '' @ py_str B rating @ ''/5 (''
                      @ py_str B total_ratings @ '' reviews)'')))
            else Inr []) (\<lambda>info.
     Inr \<lparr>name = nm, address = addr, rating_info = info, place_id = pid\<rparr>)))))"

fun formatted_results :: "py_builtins \<Rightarrow> place_info list \<Rightarrow> json list \<Rightarrow> place_info list result" where
  "formatted_results B acc [] = Inr acc"
| "formatted_results B acc (place # rest) =
     (case format_place B place of
        Inl e \<Rightarrow> Inl e
      | Inr r \<Rightarrow> formatted_results B (acc @ [r]) rest)"

definition no_places_message :: "py_builtins \<Rightarrow> string \<Rightarrow> pyfloat \<Rightarrow> pyfloat \<Rightarrow> int \<Rightarrow> string" where
  "no_places_message B query lat lng radius =
     ''No places found for '' @ [CHR 0x27] @ query @ [CHR 0x27] @ '' within '' @ str_int radius
     @ ''m of coordinates '' @ float_repr B lat @ '','' @ float_repr B lng @ ''.''"

definition format_places ::
  "py_builtins \<Rightarrow> string \<Rightarrow> json \<Rightarrow> pyfloat \<Rightarrow> pyfloat \<Rightarrow> int \<Rightarrow> places_output result" where
  "format_places B query places lat lng radius =
     (if \<not> truthy places then Inr (Py_str (no_places_message B query lat lng radius))
      else rbind (py_iter places) (\<lambda>ps.
           rbind (formatted_results B [] ps) (\<lambda>rs.
           Inr (Py_list rs))))"

definition GooglePlacesTool_forward ::
  "py_builtins \<Rightarrow> provider \<Rightarrow> GooglePlacesTool \<Rightarrow> string \<Rightarrow> string option \<Rightarrow> int option
     \<Rightarrow> world \<Rightarrow> places_output result \<times> world" where
  "GooglePlacesTool_forward B prov self query location radius w =
     (case google_api_key self of
        None \<Rightarrow> (Inl (ValueError
          ''Missing Google API key. Make sure you have 'GOOGLE_API_KEY' in your env variables.''), w)
      | Some key \<Rightarrow>
     (case parse_location self location of
        Inl e \<Rightarrow> (Inl e, w)
      | Inr (lat, lng) \<Rightarrow>
        (let search_radius = (case radius of Some r \<Rightarrow> r | None \<Rightarrow> default_radius self);
             (got, w1) = api_request B prov self query (Some lat) (Some lng) search_radius w
         in case got of
              Inl e \<Rightarrow> (Inl e, w1)
            | Inr places \<Rightarrow> (format_places B query places lat lng search_radius, w1))))"

section \<open>The hours lookup\<close>

record hours_info =
  open_time :: json
  close_time :: json

text \<open>
  \<^verbatim>\<open>hours = response['result']['opening_hours']['periods'][0]\<close> and the dictionary built
  from it, left to right.
\<close>

definition working_hours :: "json \<Rightarrow> hours_info result" where
  "working_hours response =
     rbind (getitem response ''result'') (\<lambda>res.
     rbind (getitem res ''opening_hours'') (\<lambda>oh.
     rbind (getitem oh ''periods'') (\<lambda>periods.
     rbind (getitem0 periods) (\<lambda>hours.
     rbind (getitem hours ''open'') (\<lambda>op.
     rbind (getitem op ''time'') (\<lambda>ot.
     rbind (getitem hours ''close'') (\<lambda>cl.
     rbind (getitem cl ''time'') (\<lambda>ct.
     Inr \<lparr>open_time = ot, close_time = ct\<rparr>))))))))"

text \<open>
  \<^verbatim>\<open>get_place_working_hours\<close>: the key is read with \<^verbatim>\<open>os.environ['GOOGLE_API_KEY']\<close> on
  every call; there is no \<^verbatim>\<open>try\<close>, no \<^verbatim>\<open>raise_for_status()\<close> and no timeout.
\<close>

definition hours_request :: "string \<Rightarrow> string \<Rightarrow> http_request" where
  "hours_request google_key pid =
     \<lparr>req_url = ''https://maps.googleapis.com/maps/api/place/details/json'',
      req_params = [(''place_id'', JStr pid), (''fields'', JStr ''name,url,opening_hours''),
                    (''key'', JStr google_key)],
      req_timeout = None, req_headers = []\<rparr>"

definition get_place_working_hours ::
  "environ \<Rightarrow> provider \<Rightarrow> string \<Rightarrow> world \<Rightarrow> hours_info result \<times> world" where
  "get_place_working_hours env prov pid w =
     (case env ''GOOGLE_API_KEY'' of
        None \<Rightarrow> (Inl (KeyError (JStr ''GOOGLE_API_KEY'')), w)
      | Some google_key \<Rightarrow>
        (let w0 = py_print ''name,url,opening_hours'' w;
             (out, w1) = requests_get prov (hours_request google_key pid) w0
         in case out of
              Request_Failed msg \<Rightarrow> (Inl (RequestException msg), w1)
            | Reply status body \<Rightarrow>
                (case body of
                   Inl msg \<Rightarrow> (Inl (RequestException msg), w1)
                 | Inr response \<Rightarrow> (working_hours response, w1))))"

section \<open>Fixed inputs on which the model is run\<close>

text \<open>
  A provider that gives the same answer to every request, an environment given by its
  variables, the world before anything happened, and a stand-in for the two built-ins.
\<close>

definition constant_provider :: "http_outcome \<Rightarrow> provider" where
  "constant_provider out = (\<lambda>req. out)"

definition env_of :: "(string \<times> string) list \<Rightarrow> environ" where
  "env_of vars = map_of vars"

definition fresh_world :: world where
  "fresh_world = \<lparr>sent = [], stdout = []\<rparr>"

definition sample_builtins :: py_builtins where
  "sample_builtins = \<lparr>float_repr = (\<lambda>x. ''<float>''), str_repr = (\<lambda>s. [CHR 0x27] @ s @ [CHR 0x27])\<rparr>"

section \<open>Properties of texts\<close>

text \<open>The lines of a text.\<close>

definition output_lines :: "string \<Rightarrow> string list" where
  "output_lines s = split_on (CHR 0x0A) s"

text \<open>A list of lines with one empty line put between each two of them.\<close>

fun spaced :: "string list \<Rightarrow> string list" where
  "spaced [] = []"
| "spaced [x] = [x]"
| "spaced (x # y # ys) = x # [] # spaced (y # ys)"

text \<open>
  A list of lines in which each line begins with its number and a full stop, the first line
  having the number \<open>k + 1\<close>.
\<close>

definition numbered_from :: "nat \<Rightarrow> string list \<Rightarrow> bool" where
  "numbered_from k ls = list_all (\<lambda>(i, l). prefix (str_int (int i + 1) @ ''.'') l) (enumerate k ls)"

section \<open>What a call returns and what it leaves behind\<close>

lemma api_request_defaults_Some [simp]:
  "api_request_defaults pt (Some lat) (Some lng) = (Some lat, Some lng)"
  by (simp add: api_request_defaults_def)

lemma search_forward_output:
  "fst (GoogleSearchTool_forward B prov st query filter_year w) =
     (case api_key st of
        None \<Rightarrow> Inl (ValueError
          ''Missing Google API key. Make sure you have 'GOOGLE_API_KEY' in your env variables.'')
      | Some key \<Rightarrow>
     (case cx st of
        None \<Rightarrow> Inl (ValueError
          ''Missing Custom Search Engine ID. Make sure you have 'GOOGLE_CSE_ID' in your env variables.'')
      | Some cxv \<Rightarrow>
         (case checked_json (prov (search_request key cxv query filter_year)) of
            Inl msg \<Rightarrow> Inl (ValueError (''Error making request to Google Custom Search API: '' @ msg))
          | Inr results \<Rightarrow> search_output B query filter_year results)))"
  by (simp add: GoogleSearchTool_forward_def requests_get_def split: option.splits sum.splits)

lemma places_forward_output:
  "fst (GooglePlacesTool_forward B prov pt query location radius w) =
     (case google_api_key pt of
        None \<Rightarrow> Inl (ValueError
          ''Missing Google API key. Make sure you have 'GOOGLE_API_KEY' in your env variables.'')
      | Some key \<Rightarrow>
     (case parse_location pt location of
        Inl e \<Rightarrow> Inl e
      | Inr (lat, lng) \<Rightarrow>
         (let r = (case radius of Some r \<Rightarrow> r | None \<Rightarrow> default_radius pt) in
          case checked_json (prov (places_request B pt query (Some lat) (Some lng) r)) of
            Inl msg \<Rightarrow> Inl (ValueError (''Error making request to Google Places API: '' @ msg))
          | Inr data \<Rightarrow>
              (case (if API_TYPE pt = ''findplacefromtext''
                     then dict_get data ''candidates'' (JList [])
                     else dict_get data ''results'' (JList [])) of
                 Inl e \<Rightarrow> Inl e
               | Inr places \<Rightarrow> format_places B query places lat lng r))))"
  by (simp add: GooglePlacesTool_forward_def api_request_def requests_get_def Let_def
           split: option.splits sum.splits prod.splits)

lemma hours_output:
  "fst (get_place_working_hours env prov pid w) =
     (case env ''GOOGLE_API_KEY'' of
        None \<Rightarrow> Inl (KeyError (JStr ''GOOGLE_API_KEY''))
      | Some k \<Rightarrow>
         (case prov (hours_request k pid) of
            Request_Failed msg \<Rightarrow> Inl (RequestException msg)
          | Reply status body \<Rightarrow>
              (case body of Inl msg \<Rightarrow> Inl (RequestException msg)
               | Inr response \<Rightarrow> working_hours response)))"
  by (simp add: get_place_working_hours_def requests_get_def Let_def
           split: option.splits sum.splits prod.splits http_outcome.splits)

lemma contains_obj: "contains (JObj kvs) k = Inr (map_of kvs k \<noteq> None)"
  by (simp add: map_of_eq_None_iff)

lemma search_output_obj:
  "search_output B query filter_year (JObj kvs) =
     (case map_of kvs ''items'' of
        None \<Rightarrow> Inr (no_results_message query filter_year)
      | Some items \<Rightarrow>
          rbind (py_len items) (\<lambda>n.
            if n = 0 then Inr (no_results_message query filter_year)
            else rbind (py_iter items) (\<lambda>xs.
                 rbind (web_snippets B [] 0 xs) (\<lambda>snippets.
                 Inr (''## Search Results'' @ [CHR 0x0A] @ join [CHR 0x0A, CHR 0x0A] snippets)))))"
  by (auto simp add: search_output_def contains_obj rbind_def simp del: contains.simps
        split: option.splits sum.splits)

lemma format_place_obj:
  "format_place B (JObj kvs) =
     Inr \<lparr>name = (case map_of kvs ''name'' of None \<Rightarrow> JStr ''Unnamed location'' | Some v \<Rightarrow> v),
          address = (case map_of kvs ''formatted_address'' of
                       None \<Rightarrow> JStr ''No address available'' | Some v \<Rightarrow> v),
          rating_info =
            (case map_of kvs ''rating'' of
               None \<Rightarrow> []
             | Some rating \<Rightarrow>
                 [CHR 0x0A] @ ''Rating: '' @ py_str B rating @ ''/5 (''
                 @ py_str B (case map_of kvs ''user_ratings_total'' of None \<Rightarrow> JInt 0 | Some t \<Rightarrow> t)
                 @ '' reviews)''),
          place_id = (case map_of kvs ''place_id'' of None \<Rightarrow> JStr ''No ID'' | Some v \<Rightarrow> v)\<rparr>"
  by (simp add: format_place_def rbind_def contains_obj del: contains.simps split: option.splits)

lemma formatted_results_all:
  "list_all2 (\<lambda>p r. format_place B p = Inr r) ps rs \<Longrightarrow>
   formatted_results B acc ps = Inr (acc @ rs)"
  by (induction ps rs arbitrary: acc rule: list_all2_induct) simp_all

lemma objects_formatted:
  "\<forall>p\<in>set ps. \<exists>kvs. p = JObj kvs \<Longrightarrow> \<exists>rs. list_all2 (\<lambda>p r. format_place B p = Inr r) ps rs"
proof (induction ps)
  case Nil
  then show ?case by simp
next
  case (Cons p ps)
  then obtain kvs rs where "p = JObj kvs" and "list_all2 (\<lambda>p r. format_place B p = Inr r) ps rs"
    by auto
  then show ?case
    by (auto simp add: format_place_obj list_all2_Cons1)
qed

lemma parse_location_total: "\<exists>lat lng. parse_location pt location = Inr (lat, lng)"
proof (cases location)
  case None
  then show ?thesis by (simp add: parse_location_def)
next
  case (Some loc)
  have only: "parse_location_try loc = Inl e \<Longrightarrow> \<exists>m. e = ValueError m" for e
    by (auto simp add: parse_location_try_def unpack2_def py_float_def rbind_def
          split: list.splits option.splits sum.splits)
  show ?thesis
  proof (cases "parse_location_try loc")
    case (Inl e)
    with only obtain m where "e = ValueError m" by blast
    with Inl Some show ?thesis by (simp add: parse_location_def)
  next
    case (Inr p)
    with Some show ?thesis by (cases p) (simp add: parse_location_def)
  qed
qed

lemma places_forward_formats:
  assumes "google_api_key pt = Some key"
    and "API_TYPE pt = ''textsearch''"
    and "\<forall>req. prov req = Reply None (Inr (JObj doc))"
    and "parse_location pt location = Inr (lat, lng)"
  shows "fst (GooglePlacesTool_forward B prov pt query location radius w) =
      format_places B query (case map_of doc ''results'' of None \<Rightarrow> JList [] | Some v \<Rightarrow> v) lat lng
        (case radius of Some r \<Rightarrow> r | None \<Rightarrow> default_radius pt)"
  using assms by (simp add: places_forward_output checked_json_def)

lemma places_forward_list:
  assumes "google_api_key pt = Some key"
    and "API_TYPE pt = ''textsearch''"
    and "\<forall>req. prov req = Reply None (Inr (JObj doc))"
    and "map_of doc ''results'' = Some (JList ps)" and "ps \<noteq> []"
    and "\<forall>p\<in>set ps. \<exists>kvs. p = JObj kvs"
  shows "\<exists>rs. fst (GooglePlacesTool_forward B prov pt query location radius w) = Inr (Py_list rs)
              \<and> list_all2 (\<lambda>p r. format_place B p = Inr r) ps rs"
proof -
  obtain lat lng where loc: "parse_location pt location = Inr (lat, lng)"
    using parse_location_total by blast
  from assms(6) obtain rs where rs: "list_all2 (\<lambda>p r. format_place B p = Inr r) ps rs"
    using objects_formatted by blast
  then have "formatted_results B [] ps = Inr rs"
    using formatted_results_all [of B ps rs "[]"] by simp
  with assms(4,5) rs show ?thesis
    unfolding places_forward_formats [OF assms(1-3) loc]
    by (auto simp add: format_places_def rbind_def)
qed

lemma formatted_result_obj:
  "formatted_result B idx (JObj f) =
     Inr (str_int (int idx + 1) @ ''. ''
          @ py_str B (case map_of f ''link'' of None \<Rightarrow> JStr ''#'' | Some v \<Rightarrow> v))"
  by (simp add: formatted_result_def rbind_def)

lemma formatted_result_numbered:
  "formatted_result B idx item = Inr line \<Longrightarrow> prefix (str_int (int idx + 1) @ ''.'') line"
  by (cases item) (auto simp add: formatted_result_def rbind_def)

lemma web_snippets_all:
  "list_all2 (\<lambda>(i, item) line. formatted_result B i item = Inr line) (enumerate idx items) ls \<Longrightarrow>
   web_snippets B acc idx items = Inr (acc @ ls)"
proof (induction items arbitrary: acc idx ls)
  case Nil
  then show ?case by simp
next
  case (Cons item items)
  then obtain l ls' where ls: "ls = l # ls'" and l: "formatted_result B idx item = Inr l"
    and rest: "list_all2 (\<lambda>(i, item) line. formatted_result B i item = Inr line)
                 (enumerate (Suc idx) items) ls'"
    by (auto simp add: list_all2_Cons1)
  from Cons.IH [OF rest, of "acc @ [l]"] l ls show ?case by simp
qed

lemma objects_have_snippets:
  "\<forall>item\<in>set items. \<exists>f. item = JObj f \<Longrightarrow>
   \<exists>ls. list_all2 (\<lambda>(i, item) line. formatted_result B i item = Inr line) (enumerate idx items) ls"
proof (induction items arbitrary: idx)
  case Nil
  then show ?case by simp
next
  case (Cons item items)
  then obtain f where "item = JObj f" by auto
  moreover from Cons obtain ls where
    "list_all2 (\<lambda>(i, item) line. formatted_result B i item = Inr line) (enumerate (Suc idx) items) ls"
    by fastforce
  ultimately show ?case
    by (auto simp add: list_all2_Cons1 formatted_result_obj)
qed

lemma snippets_numbered:
  "list_all2 (\<lambda>(i, item) line. formatted_result B i item = Inr line) (enumerate idx items) ls \<Longrightarrow>
   numbered_from idx ls"
proof (induction items arbitrary: idx ls)
  case Nil
  then show ?case by (simp add: numbered_from_def)
next
  case (Cons item items)
  then obtain l ls' where ls: "ls = l # ls'" and l: "formatted_result B idx item = Inr l"
    and rest: "list_all2 (\<lambda>(i, item) line. formatted_result B i item = Inr line)
                 (enumerate (Suc idx) items) ls'"
    by (auto simp add: list_all2_Cons1)
  from Cons.IH [OF rest] formatted_result_numbered [OF l] ls show ?case
    by (simp add: numbered_from_def)
qed

lemma split_on_absent: "c \<notin> set s \<Longrightarrow> split_on c s = [s]"
  by (induction s) auto

lemma split_on_first: "c \<notin> set a \<Longrightarrow> split_on c (a @ c # r) = a # split_on c r"
  by (induction a) auto

lemma lines_of_join:
  "ls \<noteq> [] \<Longrightarrow> \<forall>l\<in>set ls. CHR 0x0A \<notin> set l \<Longrightarrow>
   split_on (CHR 0x0A) (join [CHR 0x0A, CHR 0x0A] ls) = spaced ls"
proof (induction ls rule: spaced.induct)
  case 1
  then show ?case by simp
next
  case (2 x)
  then show ?case by (simp add: split_on_absent)
next
  case (3 x y ys)
  then have "split_on (CHR 0x0A) (join [CHR 0x0A, CHR 0x0A] (y # ys)) = spaced (y # ys)"
    by simp
  moreover have "CHR 0x0A \<notin> set x" using 3 by simp
  ultimately show ?case
    using split_on_first [of "CHR 0x0A" x "CHR 0x0A # join [CHR 0x0A, CHR 0x0A] (y # ys)"]
    by simp
qed

lemma length_spaced: "length (spaced ls) = 2 * length ls - 1"
  by (induction ls rule: spaced.induct) auto

lemma places_forward_sent:
  "sent (snd (GooglePlacesTool_forward B prov pt query location radius w)) =
     (case google_api_key pt of
        None \<Rightarrow> sent w
      | Some key \<Rightarrow>
     (case parse_location pt location of
        Inl e \<Rightarrow> sent w
      | Inr (lat, lng) \<Rightarrow>
          sent w @ [places_request B pt query (Some lat) (Some lng)
                      (case radius of Some r \<Rightarrow> r | None \<Rightarrow> default_radius pt)]))"
  by (simp add: GooglePlacesTool_forward_def api_request_def requests_get_def py_print_def Let_def
           split: option.splits sum.splits prod.splits)

lemma parse_location_fallback:
  assumes "split_on CHR '','' loc = [x, y]"
    and "float_of_str (strip x) = None \<or> float_of_str (strip y) = None"
  shows "parse_location pt (Some loc) = Inr (default_lat pt, default_lng pt)"
  using assms
  by (auto simp add: parse_location_def parse_location_try_def unpack2_def py_float_def rbind_def
        split: option.splits)

lemma parse_location_wrong_count:
  assumes "length (split_on CHR '','' loc) \<noteq> 2"
  shows "parse_location pt (Some loc) = Inr (default_lat pt, default_lng pt)"
proof -
  from assms have "\<exists>m. unpack2 (split_on CHR '','' loc) = Inl (ValueError m)"
    by (auto simp add: unpack2_def split: list.splits)
  then show ?thesis
    by (auto simp add: parse_location_def parse_location_try_def rbind_def)
qed

lemma parse_location_try_exact:
  "parse_location_try ''44.8176,20.4633'' =
     Inr (Finite False (1576879114528437 / 35184372088832),
          Finite False (5759906890923167 / 281474976710656))"
  by code_simp

lemma float_literal_lat:
  "round_binary64 False (448176 / 10000) = Finite False (1576879114528437 / 35184372088832)"
  by code_simp

lemma float_literal_lng:
  "round_binary64 False (204633 / 10000) = Finite False (5759906890923167 / 281474976710656)"
  by code_simp

lemma parse_location_try_words:
  "parse_location_try ''not-a-number,also-bad'' = Inl (ValueError ''could not convert string to float'')"
  by code_simp

lemma float_of_north: "float_of_str (strip ''north'') = None"
  by code_simp

section \<open>Missing credentials\<close>



section \<open>Repeating a call\<close>

text \<open>
  Claim C8. For each adapter, a second invocation with the same arguments, the same
  credentials and the same provider, made in the world that the first invocation left
  behind, returns what the first one returned (the same value or the same exception).
\<close>

theorem repeated_invocation_same_output:
  "fst (GoogleSearchTool_forward B prov st query filter_year
          (snd (GoogleSearchTool_forward B prov st query filter_year w)))
     = fst (GoogleSearchTool_forward B prov st query filter_year w)
   \<and> fst (GooglePlacesTool_forward B prov pt query location radius
          (snd (GooglePlacesTool_forward B prov pt query location radius w)))
     = fst (GooglePlacesTool_forward B prov pt query location radius w)
   \<and> fst (get_place_working_hours env prov pid (snd (get_place_working_hours env prov pid w)))
     = fst (get_place_working_hours env prov pid w)"
  by (simp add: search_forward_output places_forward_output hours_output)

section \<open>Opening hours that are not there\<close>

text \<open>
  Claim C2, at one input. The provider describes a place whose list of opening periods is
  empty. The lookup prints its field list, sends its request and then raises the
  \<^verbatim>\<open>IndexError\<close> of \<^verbatim>\<open>periods[0]\<close>: an unguarded structural access, and not a not-found
  error of the adapter's own.
\<close>

theorem empty_periods_counterexample:
  "get_place_working_hours (env_of [(''GOOGLE_API_KEY'', ''secret'')])
     (constant_provider (Reply None (Inr
        (JObj [(''result'', JObj [(''opening_hours'', JObj [(''periods'', JList [])])])]))))
     ''ChIJ'' fresh_world
   = (Inl IndexError,
      \<lparr>sent = [hours_request ''secret'' ''ChIJ''], stdout = [''name,url,opening_hours'']\<rparr>)"
  by (simp add: get_place_working_hours_def env_of_def constant_provider_def fresh_world_def
        requests_get_def py_print_def working_hours_def rbind_def)

text \<open>
  Claim C2, as the code has it. With the key set and a response whose \<^verbatim>\<open>result\<close> is a
  dictionary: when \<^verbatim>\<open>opening_hours\<close> is missing from it the lookup raises
  \<^verbatim>\<open>KeyError('opening_hours')\<close>, and when the \<^verbatim>\<open>periods\<close> list is empty it raises
  \<^verbatim>\<open>IndexError\<close>.
\<close>

theorem hours_without_periods_raise:
  assumes "env ''GOOGLE_API_KEY'' = Some k"
    and "prov (hours_request k pid) = Reply status (Inr (JObj doc))"
    and "map_of doc ''result'' = Some (JObj res)"
  shows "(map_of res ''opening_hours'' = None \<longrightarrow>
            fst (get_place_working_hours env prov pid w) = Inl (KeyError (JStr ''opening_hours'')))
       \<and> (map_of res ''opening_hours'' = Some (JObj oh) \<and> map_of oh ''periods'' = Some (JList []) \<longrightarrow>
            fst (get_place_working_hours env prov pid w) = Inl IndexError)"
  using assms by (simp add: hours_output working_hours_def rbind_def)

theorem hours_without_periods_raise_witness:
  "env_of [(''GOOGLE_API_KEY'', ''secret'')] ''GOOGLE_API_KEY'' = Some ''secret''
   \<and> constant_provider (Reply None (Inr (JObj [(''result'', JObj [(''opening_hours'', JObj [(''periods'', JList [])])])])))
        (hours_request ''secret'' ''ChIJ'')
      = Reply None (Inr (JObj [(''result'', JObj [(''opening_hours'', JObj [(''periods'', JList [])])])]))
   \<and> map_of [(''result'', JObj [(''opening_hours'', JObj [(''periods'', JList [])])])] ''result''
      = Some (JObj [(''opening_hours'', JObj [(''periods'', JList [])])])
   \<and> map_of [(''opening_hours'', JObj [(''periods'', JList [])])] ''opening_hours'' = Some (JObj [(''periods'', JList [])])
   \<and> map_of [(''periods'', JList [])] ''periods'' = Some (JList [])
   \<and> fst (get_place_working_hours (env_of [(''GOOGLE_API_KEY'', ''secret'')])
        (constant_provider (Reply None (Inr (JObj [(''result'', JObj [(''opening_hours'', JObj [(''periods'', JList [])])])]))))
        ''ChIJ'' fresh_world) = Inl IndexError"
  using hours_without_periods_raise
    [where env = "env_of [(''GOOGLE_API_KEY'', ''secret'')]" and k = "''secret''"
       and prov = "constant_provider (Reply None (Inr (JObj [(''result'', JObj [(''opening_hours'', JObj [(''periods'', JList [])])])])))"
       and pid = "''ChIJ''" and status = None
       and doc = "[(''result'', JObj [(''opening_hours'', JObj [(''periods'', JList [])])])]"
       and res = "[(''opening_hours'', JObj [(''periods'', JList [])])]"
       and oh = "[(''periods'', JList [])]" and w = fresh_world]
  by (simp add: env_of_def constant_provider_def)

section \<open>Where the credentials come from\<close>

text \<open>
  Claim C10, at one input. The web search tool is constructed with the empty string as
  its explicit key while \<^verbatim>\<open>GOOGLE_API_KEY\<close> is set: the key of the tool is the one of the
  environment, so the explicit argument did not take precedence.
\<close>

theorem empty_argument_counterexample:
  "api_key (GoogleSearchTool_init (env_of [(''GOOGLE_API_KEY'', ''from-env'')]) (Some []) None)
     = Some ''from-env''"
  by (simp add: GoogleSearchTool_init_def env_of_def py_or_def)

text \<open>
  Claim C10, as the code has it. For the web search tool an explicit key or search engine
  identifier that is not the empty string wins over the environment, and an argument that
  is \<^verbatim>\<open>None\<close> or empty gives the value of the environment. For the places tool the
  environment wins whenever \<^verbatim>\<open>GOOGLE_API_KEY\<close> is set, and the argument is used only when it
  is not set.
\<close>

theorem credential_precedence:
  "(k \<noteq> [] \<longrightarrow> api_key (GoogleSearchTool_init env (Some k) c) = Some k)
   \<and> (c' \<noteq> [] \<longrightarrow> cx (GoogleSearchTool_init env a (Some c')) = Some c')
   \<and> api_key (GoogleSearchTool_init env (Some []) c) = env ''GOOGLE_API_KEY''
   \<and> api_key (GoogleSearchTool_init env None c) = env ''GOOGLE_API_KEY''
   \<and> cx (GoogleSearchTool_init env a (Some [])) = env ''GOOGLE_CSE_ID''
   \<and> cx (GoogleSearchTool_init env a None) = env ''GOOGLE_CSE_ID''
   \<and> (env ''GOOGLE_API_KEY'' = Some v \<longrightarrow> google_api_key (GooglePlacesTool_init env a) = Some v)
   \<and> (env ''GOOGLE_API_KEY'' = None \<longrightarrow> google_api_key (GooglePlacesTool_init env a) = a)"
  by (simp add: GoogleSearchTool_init_def GooglePlacesTool_init_def py_or_def)

theorem credential_precedence_witness:
  "''explicit'' \<noteq> []
   \<and> api_key (GoogleSearchTool_init (env_of [(''GOOGLE_API_KEY'', ''from-env'')]) (Some ''explicit'') None)
       = Some ''explicit''
   \<and> ''engine'' \<noteq> []
   \<and> cx (GoogleSearchTool_init (env_of [(''GOOGLE_API_KEY'', ''from-env'')]) None (Some ''engine''))
       = Some ''engine''
   \<and> env_of [(''GOOGLE_API_KEY'', ''from-env'')] ''GOOGLE_API_KEY'' = Some ''from-env''
   \<and> google_api_key (GooglePlacesTool_init (env_of [(''GOOGLE_API_KEY'', ''from-env'')]) (Some ''explicit''))
       = Some ''from-env''
   \<and> env_of [] ''GOOGLE_API_KEY'' = None
   \<and> google_api_key (GooglePlacesTool_init (env_of []) (Some ''explicit'')) = Some ''explicit''"
  using
    credential_precedence
      [where k = "''explicit''" and c' = "''engine''" and c = None and a = None
         and env = "env_of [(''GOOGLE_API_KEY'', ''from-env'')]" and v = "''from-env''"]
    credential_precedence
      [where a = "Some ''explicit''" and env = "env_of [(''GOOGLE_API_KEY'', ''from-env'')]"
         and v = "''from-env''"]
    credential_precedence [where a = "Some ''explicit''" and env = "env_of []"]
  by (simp add: env_of_def)

section \<open>A search without results\<close>

text \<open>
  Claim C5. With both credentials set and a provider response that is a dictionary
  without \<^verbatim>\<open>items\<close>, or with an empty \<^verbatim>\<open>items\<close> list, the web search returns the
  message \<^verbatim>\<open>No results found for '<query>'\<close>, followed by
  \<^verbatim>\<open> with filter year=<year>\<close> when a year was given, followed by the advice to try a
  more general query: the query is in it as it was passed.
\<close>

theorem no_items_no_results_message:
  assumes "api_key st = Some key" and "cx st = Some cxv"
    and "prov (search_request key cxv query filter_year) = Reply None (Inr (JObj kvs))"
    and "map_of kvs ''items'' = None \<or> map_of kvs ''items'' = Some (JList [])"
  shows "fst (GoogleSearchTool_forward B prov st query filter_year w) =
           Inr (''No results found for '' @ [CHR 0x27] @ query @ [CHR 0x27]
                @ (case filter_year of None \<Rightarrow> [] | Some y \<Rightarrow> '' with filter year='' @ str_int y)
                @ ''. Try with a more general query, or remove the year filter.'')"
  using assms
  by (auto simp add: search_forward_output checked_json_def search_output_obj rbind_def
        no_results_message_def)

theorem no_items_no_results_message_witness:
  "api_key \<lparr>api_key = Some ''secret'', cx = Some ''engine''\<rparr> = Some ''secret''
   \<and> cx \<lparr>api_key = Some ''secret'', cx = Some ''engine''\<rparr> = Some ''engine''
   \<and> constant_provider (Reply None (Inr (JObj [(''kind'', JStr ''customsearch#search'')])))
        (search_request ''secret'' ''engine'' ''tea'' (Some 2020))
      = Reply None (Inr (JObj [(''kind'', JStr ''customsearch#search'')]))
   \<and> map_of [(''kind'', JStr ''customsearch#search'')] ''items'' = None
   \<and> fst (GoogleSearchTool_forward sample_builtins
        (constant_provider (Reply None (Inr (JObj [(''kind'', JStr ''customsearch#search'')]))))
        \<lparr>api_key = Some ''secret'', cx = Some ''engine''\<rparr> ''tea'' (Some 2020) fresh_world)
      = Inr (''No results found for 'tea' with filter year=2020. Try with a more general query, or remove the year filter.'')"
  using no_items_no_results_message
    [where st = "\<lparr>api_key = Some ''secret'', cx = Some ''engine''\<rparr>" and key = "''secret''"
       and cxv = "''engine''" and query = "''tea''" and filter_year = "Some 2020"
       and prov = "constant_provider (Reply None (Inr (JObj [(''kind'', JStr ''customsearch#search'')])))"
       and kvs = "[(''kind'', JStr ''customsearch#search'')]" and B = sample_builtins and w = fresh_world]
  by (simp add: constant_provider_def str_int_def digit_char_def)

section \<open>Places: no results and results\<close>

text \<open>
  Claim C6. The places tool has its key, searches by text, and the provider answers with
  a dictionary. When that dictionary has no \<^verbatim>\<open>results\<close> or an empty \<^verbatim>\<open>results\<close> list, the
  tool returns one string, \<^verbatim>\<open>No places found for '<query>' within <radius>m of
  coordinates <lat>,<lng>.\<close>, with the query as it was passed. When \<^verbatim>\<open>results\<close> is a
  non-empty list of dictionaries, it returns a list with one record for each of them, in
  order. A string and a list are different shapes of value.
\<close>

theorem places_empty_is_text_nonempty_is_list:
  assumes "google_api_key pt = Some key"
    and "API_TYPE pt = ''textsearch''"
    and "\<forall>req. prov req = Reply None (Inr (JObj doc))"
  shows "(map_of doc ''results'' = None \<or> map_of doc ''results'' = Some (JList []) \<longrightarrow>
           (\<exists>lat lng. parse_location pt location = Inr (lat, lng)
              \<and> fst (GooglePlacesTool_forward B prov pt query location radius w) =
                  Inr (Py_str (''No places found for '' @ [CHR 0x27] @ query @ [CHR 0x27]
                    @ '' within ''
                    @ str_int (case radius of Some r \<Rightarrow> r | None \<Rightarrow> default_radius pt)
                    @ ''m of coordinates '' @ float_repr B lat @ '','' @ float_repr B lng @ ''.''))))
       \<and> (map_of doc ''results'' = Some (JList ps) \<and> ps \<noteq> [] \<and> (\<forall>p\<in>set ps. \<exists>kvs. p = JObj kvs) \<longrightarrow>
           (\<exists>rs. fst (GooglePlacesTool_forward B prov pt query location radius w) = Inr (Py_list rs)
              \<and> list_all2 (\<lambda>p r. format_place B p = Inr r) ps rs))"
proof -
  obtain lat lng where loc: "parse_location pt location = Inr (lat, lng)"
    using parse_location_total by blast
  have empty: "map_of doc ''results'' = None \<or> map_of doc ''results'' = Some (JList []) \<Longrightarrow>
      fst (GooglePlacesTool_forward B prov pt query location radius w) =
        Inr (Py_str (no_places_message B query lat lng
          (case radius of Some r \<Rightarrow> r | None \<Rightarrow> default_radius pt)))"
    unfolding places_forward_formats [OF assms loc] by (auto simp add: format_places_def)
  show ?thesis
    using empty loc places_forward_list [OF assms] by (auto simp add: no_places_message_def)
qed

theorem places_empty_is_text_nonempty_is_list_witness:
  "google_api_key (GooglePlacesTool_init (env_of [(''GOOGLE_API_KEY'', ''secret'')]) None) = Some ''secret''
   \<and> API_TYPE (GooglePlacesTool_init (env_of [(''GOOGLE_API_KEY'', ''secret'')]) None) = ''textsearch''
   \<and> (\<forall>req. constant_provider (Reply None (Inr (JObj [(''status'', JStr ''ZERO_RESULTS''), (''results'', JList [])]))) req
         = Reply None (Inr (JObj [(''status'', JStr ''ZERO_RESULTS''), (''results'', JList [])])))
   \<and> map_of [(''status'', JStr ''ZERO_RESULTS''), (''results'', JList [])] ''results'' = Some (JList [])
   \<and> fst (GooglePlacesTool_forward sample_builtins
        (constant_provider (Reply None (Inr (JObj [(''status'', JStr ''ZERO_RESULTS''), (''results'', JList [])]))))
        (GooglePlacesTool_init (env_of [(''GOOGLE_API_KEY'', ''secret'')]) None)
        ''tea'' None None fresh_world)
      = Inr (Py_str ''No places found for 'tea' within 5000m of coordinates <float>,<float>.'')
   \<and> (\<forall>req. constant_provider (Reply None (Inr (JObj [(''results'', JList [JObj [(''name'', JStr ''Cafe'')]])]))) req
         = Reply None (Inr (JObj [(''results'', JList [JObj [(''name'', JStr ''Cafe'')]])])))
   \<and> map_of [(''results'', JList [JObj [(''name'', JStr ''Cafe'')]])] ''results''
        = Some (JList [JObj [(''name'', JStr ''Cafe'')]])
   \<and> [JObj [(''name'', JStr ''Cafe'')]] \<noteq> []
   \<and> fst (GooglePlacesTool_forward sample_builtins
        (constant_provider (Reply None (Inr (JObj [(''results'', JList [JObj [(''name'', JStr ''Cafe'')]])]))))
        (GooglePlacesTool_init (env_of [(''GOOGLE_API_KEY'', ''secret'')]) None)
        ''tea'' None None fresh_world)
      = Inr (Py_list [\<lparr>name = JStr ''Cafe'', address = JStr ''No address available'',
                       rating_info = [], place_id = JStr ''No ID''\<rparr>])"
  using
    places_empty_is_text_nonempty_is_list
      [where pt = "GooglePlacesTool_init (env_of [(''GOOGLE_API_KEY'', ''secret'')]) None"
         and key = "''secret''"
         and prov = "constant_provider (Reply None (Inr (JObj [(''status'', JStr ''ZERO_RESULTS''), (''results'', JList [])])))"
         and doc = "[(''status'', JStr ''ZERO_RESULTS''), (''results'', JList [])]"
         and B = sample_builtins and query = "''tea''" and location = None and radius = None
         and w = fresh_world and ps = "[]"]
    places_empty_is_text_nonempty_is_list
      [where pt = "GooglePlacesTool_init (env_of [(''GOOGLE_API_KEY'', ''secret'')]) None"
         and key = "''secret''"
         and prov = "constant_provider (Reply None (Inr (JObj [(''results'', JList [JObj [(''name'', JStr ''Cafe'')]])])))"
         and doc = "[(''results'', JList [JObj [(''name'', JStr ''Cafe'')]])]"
         and B = sample_builtins and query = "''tea''" and location = None and radius = None
         and w = fresh_world and ps = "[JObj [(''name'', JStr ''Cafe'')]]"]
  by (auto simp add: GooglePlacesTool_init_def env_of_def constant_provider_def sample_builtins_def
        str_int_def digit_char_def list_all2_Cons1 format_place_obj)

section \<open>The rating summary\<close>

text \<open>
  Claim C7. Under the same conditions, the record at position \<open>i\<close> of the returned list
  has an empty rating summary when the provider's item at position \<open>i\<close> has no \<^verbatim>\<open>rating\<close>,
  and never a default number; when the item has a rating, the summary is a line break
  followed by \<^verbatim>\<open>Rating: <rating>/5 (<count> reviews)\<close>, where the count is the item's
  \<^verbatim>\<open>user_ratings_total\<close>, or 0 when that is missing.
\<close>

theorem rating_summary_only_with_rating:
  assumes "google_api_key pt = Some key"
    and "API_TYPE pt = ''textsearch''"
    and "\<forall>req. prov req = Reply None (Inr (JObj doc))"
    and "map_of doc ''results'' = Some (JList ps)"
    and "\<forall>p\<in>set ps. \<exists>kvs. p = JObj kvs"
    and "i < length ps" and "ps ! i = JObj kvs"
  shows "\<exists>rs. fst (GooglePlacesTool_forward B prov pt query location radius w) = Inr (Py_list rs)
           \<and> length rs = length ps
           \<and> (map_of kvs ''rating'' = None \<longrightarrow> rating_info (rs ! i) = [])
           \<and> (map_of kvs ''rating'' = Some rating \<longrightarrow>
                rating_info (rs ! i) =
                  [CHR 0x0A] @ ''Rating: '' @ py_str B rating @ ''/5 (''
                  @ py_str B (case map_of kvs ''user_ratings_total'' of None \<Rightarrow> JInt 0 | Some t \<Rightarrow> t)
                  @ '' reviews)'')"
proof -
  from assms(6) have "ps \<noteq> []" by auto
  from places_forward_list [OF assms(1-4) this assms(5)]
  obtain rs where out: "fst (GooglePlacesTool_forward B prov pt query location radius w) = Inr (Py_list rs)"
    and rel: "list_all2 (\<lambda>p r. format_place B p = Inr r) ps rs"
    by blast
  from rel have len: "length rs = length ps" by (simp add: list_all2_lengthD)
  from rel assms(6) have "format_place B (ps ! i) = Inr (rs ! i)"
    using list_all2_nthD [of "\<lambda>p r. format_place B p = Inr r" ps rs i] by simp
  then have "format_place B (JObj kvs) = Inr (rs ! i)" using assms(7) by simp
  then have "rating_info (rs ! i) =
      (case map_of kvs ''rating'' of
         None \<Rightarrow> []
       | Some rating \<Rightarrow>
           [CHR 0x0A] @ ''Rating: '' @ py_str B rating @ ''/5 (''
           @ py_str B (case map_of kvs ''user_ratings_total'' of None \<Rightarrow> JInt 0 | Some t \<Rightarrow> t)
           @ '' reviews)'')"
    unfolding format_place_obj by (cases "rs ! i") auto
  with out len show ?thesis by auto
qed

theorem rating_summary_only_with_rating_witness:
  "google_api_key (GooglePlacesTool_init (env_of [(''GOOGLE_API_KEY'', ''secret'')]) None) = Some ''secret''
   \<and> API_TYPE (GooglePlacesTool_init (env_of [(''GOOGLE_API_KEY'', ''secret'')]) None) = ''textsearch''
   \<and> (\<forall>req. constant_provider (Reply None (Inr (JObj [(''results'',
          JList [JObj [(''name'', JStr ''Cafe'')],
                 JObj [(''name'', JStr ''Bar''), (''rating'', JInt 4), (''user_ratings_total'', JInt 12)]])]))) req
        = Reply None (Inr (JObj [(''results'',
          JList [JObj [(''name'', JStr ''Cafe'')],
                 JObj [(''name'', JStr ''Bar''), (''rating'', JInt 4), (''user_ratings_total'', JInt 12)]])])))
   \<and> map_of [(''name'', JStr ''Cafe'')] ''rating'' = None
   \<and> map_of [(''name'', JStr ''Bar''), (''rating'', JInt 4), (''user_ratings_total'', JInt 12)] ''rating''
        = Some (JInt 4)
   \<and> fst (GooglePlacesTool_forward sample_builtins
        (constant_provider (Reply None (Inr (JObj [(''results'',
          JList [JObj [(''name'', JStr ''Cafe'')],
                 JObj [(''name'', JStr ''Bar''), (''rating'', JInt 4), (''user_ratings_total'', JInt 12)]])]))))
        (GooglePlacesTool_init (env_of [(''GOOGLE_API_KEY'', ''secret'')]) None)
        ''tea'' None None fresh_world)
      = Inr (Py_list
          [\<lparr>name = JStr ''Cafe'', address = JStr ''No address available'',
             rating_info = [], place_id = JStr ''No ID''\<rparr>,
           \<lparr>name = JStr ''Bar'', address = JStr ''No address available'',
             rating_info = [CHR 0x0A] @ ''Rating: 4/5 (12 reviews)'', place_id = JStr ''No ID''\<rparr>])"
proof -
  let ?cafe = "[(''name'', JStr ''Cafe'')]"
  let ?bar = "[(''name'', JStr ''Bar''), (''rating'', JInt 4), (''user_ratings_total'', JInt 12)]"
  let ?doc = "[(''results'', JList [JObj ?cafe, JObj ?bar])]"
  let ?pt = "GooglePlacesTool_init (env_of [(''GOOGLE_API_KEY'', ''secret'')]) None"
  let ?prov = "constant_provider (Reply None (Inr (JObj ?doc)))"
  have k: "google_api_key ?pt = Some ''secret''"
    by (simp add: GooglePlacesTool_init_def env_of_def)
  have t: "API_TYPE ?pt = ''textsearch''"
    by (simp add: GooglePlacesTool_init_def)
  have p: "\<forall>req. ?prov req = Reply None (Inr (JObj ?doc))"
    by (simp add: constant_provider_def)
  have d: "map_of ?doc ''results'' = Some (JList [JObj ?cafe, JObj ?bar])" by simp
  have o: "\<forall>p\<in>set [JObj ?cafe, JObj ?bar]. \<exists>kvs. p = JObj kvs" by simp
  from rating_summary_only_with_rating
         [OF k t p d o, where i = 0 and kvs = ?cafe and B = sample_builtins
            and query = "''tea''" and location = None and radius = None and w = fresh_world]
       rating_summary_only_with_rating
         [OF k t p d o, where i = 1 and kvs = ?bar and rating = "JInt 4" and B = sample_builtins
            and query = "''tea''" and location = None and radius = None and w = fresh_world]
  obtain rs where out: "fst (GooglePlacesTool_forward sample_builtins ?prov ?pt ''tea'' None None
        fresh_world) = Inr (Py_list rs)"
    and len: "length rs = 2"
    and r0: "rating_info (rs ! 0) = []"
    and r1: "rating_info (rs ! 1) = [CHR 0x0A] @ ''Rating: 4/5 (12 reviews)''"
    by (auto simp add: py_str_def str_int_def digit_char_def)
  show ?thesis
    using k t p out
    by (simp add: places_forward_output checked_json_def format_places_def rbind_def
          parse_location_def format_place_obj py_str_def str_int_def digit_char_def)
qed

section \<open>A search with results\<close>

text \<open>
  Claim C3, at one input. The provider returns one item. The output has two lines, not
  one, and its first line is the header \<^verbatim>\<open>## Search Results\<close>, which does not begin with
  \<^verbatim>\<open>1.\<close>
\<close>

theorem one_item_two_lines_counterexample:
  "fst (GoogleSearchTool_forward sample_builtins
          (constant_provider (Reply None (Inr (JObj [(''items'', JList [JObj [(''link'', JStr ''https://a.example'')]])]))))
          \<lparr>api_key = Some ''secret'', cx = Some ''engine''\<rparr> ''tea'' None fresh_world)
     = Inr (''## Search Results'' @ [CHR 0x0A] @ ''1. https://a.example'')
   \<and> output_lines (''## Search Results'' @ [CHR 0x0A] @ ''1. https://a.example'')
     = [''## Search Results'', ''1. https://a.example'']
   \<and> \<not> numbered_from 0 [''## Search Results'', ''1. https://a.example'']"
  by (simp add: search_forward_output checked_json_def constant_provider_def search_output_obj
        rbind_def formatted_result_obj py_str_def str_int_def digit_char_def output_lines_def
        numbered_from_def enumerate_eq_zip)

text \<open>
  Claim C3, as the code has it. With both credentials set and a provider response whose
  \<^verbatim>\<open>items\<close> is a list of \<open>N \<ge> 1\<close> dictionaries, the output is the header line
  \<^verbatim>\<open>## Search Results\<close> followed by \<open>N\<close> entries with one empty line between each two of
  them. Entry \<open>i\<close>, counted from 1, is the number \<open>i\<close>, a full stop, a space and the link of
  item \<open>i\<close>, or \<^verbatim>\<open>#\<close> when the item has no link. When no entry contains a line break, the
  output has \<open>2 * N\<close> lines: the header, then the entries and the empty lines in turn.
\<close>

theorem search_results_header_and_numbered_entries:
  assumes "api_key st = Some key" and "cx st = Some cxv"
    and "prov (search_request key cxv query filter_year) = Reply None (Inr (JObj kvs))"
    and "map_of kvs ''items'' = Some (JList items)" and "items \<noteq> []"
    and "\<forall>item\<in>set items. \<exists>f. item = JObj f"
  shows "\<exists>snippets.
           fst (GoogleSearchTool_forward B prov st query filter_year w) =
             Inr (''## Search Results'' @ [CHR 0x0A] @ join [CHR 0x0A, CHR 0x0A] snippets)
         \<and> length snippets = length items
         \<and> list_all2 (\<lambda>(i, item) line. \<exists>link. dict_get item ''link'' (JStr ''#'') = Inr link
               \<and> line = str_int (int i + 1) @ ''. '' @ py_str B link) (enumerate 0 items) snippets
         \<and> numbered_from 0 snippets
         \<and> ((\<forall>l\<in>set snippets. CHR 0x0A \<notin> set l) \<longrightarrow>
              output_lines (''## Search Results'' @ [CHR 0x0A] @ join [CHR 0x0A, CHR 0x0A] snippets)
                = ''## Search Results'' # spaced snippets
              \<and> length (''## Search Results'' # spaced snippets) = 2 * length items)"
proof -
  let ?R = "\<lambda>(i, item) line. formatted_result B i item = Inr line"
  from assms(6) obtain ls where rel: "list_all2 ?R (enumerate 0 items) ls"
    using objects_have_snippets by blast
  then have len: "length ls = length items"
    by (auto dest: list_all2_lengthD)
  with assms(5) have ne: "ls \<noteq> []" by auto
  have snip: "web_snippets B [] 0 items = Inr ls"
    using web_snippets_all [OF rel, of "[]"] by simp
  have out: "fst (GoogleSearchTool_forward B prov st query filter_year w) =
      Inr (''## Search Results'' @ [CHR 0x0A] @ join [CHR 0x0A, CHR 0x0A] ls)"
    using assms(1-5) snip
    by (cases items) (simp_all add: search_forward_output checked_json_def search_output_obj rbind_def)
  have shape: "list_all2 (\<lambda>(i, item) line. \<exists>link. dict_get item ''link'' (JStr ''#'') = Inr link
               \<and> line = str_int (int i + 1) @ ''. '' @ py_str B link) (enumerate 0 items) ls"
    using rel
    by (rule list_all2_mono) (auto simp add: formatted_result_def rbind_def split: sum.splits)
  have lines: "output_lines (''## Search Results'' @ [CHR 0x0A] @ join [CHR 0x0A, CHR 0x0A] ls)
                = ''## Search Results'' # spaced ls"
    if "\<forall>l\<in>set ls. CHR 0x0A \<notin> set l"
    using split_on_first [of "CHR 0x0A" "''## Search Results''" "join [CHR 0x0A, CHR 0x0A] ls"]
      lines_of_join [OF ne that]
    by (simp add: output_lines_def)
  have count: "length (''## Search Results'' # spaced ls) = 2 * length items"
    using ne len by (cases ls) (simp_all add: length_spaced)
  show ?thesis
    using out len shape snippets_numbered [OF rel] lines count by blast
qed

theorem search_results_header_and_numbered_entries_witness:
  "api_key \<lparr>api_key = Some ''secret'', cx = Some ''engine''\<rparr> = Some ''secret''
   \<and> cx \<lparr>api_key = Some ''secret'', cx = Some ''engine''\<rparr> = Some ''engine''
   \<and> constant_provider (Reply None (Inr (JObj [(''items'',
          JList [JObj [(''link'', JStr ''https://a.example'')], JObj [(''title'', JStr ''B'')]])])))
        (search_request ''secret'' ''engine'' ''tea'' None)
      = Reply None (Inr (JObj [(''items'',
          JList [JObj [(''link'', JStr ''https://a.example'')], JObj [(''title'', JStr ''B'')]])]))
   \<and> map_of [(''items'', JList [JObj [(''link'', JStr ''https://a.example'')], JObj [(''title'', JStr ''B'')]])]
         ''items''
      = Some (JList [JObj [(''link'', JStr ''https://a.example'')], JObj [(''title'', JStr ''B'')]])
   \<and> [JObj [(''link'', JStr ''https://a.example'')], JObj [(''title'', JStr ''B'')]] \<noteq> []
   \<and> fst (GoogleSearchTool_forward sample_builtins
          (constant_provider (Reply None (Inr (JObj [(''items'',
            JList [JObj [(''link'', JStr ''https://a.example'')], JObj [(''title'', JStr ''B'')]])]))))
          \<lparr>api_key = Some ''secret'', cx = Some ''engine''\<rparr> ''tea'' None fresh_world)
      = Inr (''## Search Results'' @ [CHR 0x0A] @ ''1. https://a.example'' @ [CHR 0x0A, CHR 0x0A] @ ''2. #'')
   \<and> output_lines (''## Search Results'' @ [CHR 0x0A] @ ''1. https://a.example''
          @ [CHR 0x0A, CHR 0x0A] @ ''2. #'')
      = [''## Search Results'', ''1. https://a.example'', [], ''2. #'']"
proof -
  let ?items = "[JObj [(''link'', JStr ''https://a.example'')], JObj [(''title'', JStr ''B'')]]"
  let ?doc = "[(''items'', JList ?items)]"
  let ?st = "\<lparr>api_key = Some ''secret'', cx = Some ''engine''\<rparr>"
  let ?prov = "constant_provider (Reply None (Inr (JObj ?doc)))"
  have k: "api_key ?st = Some ''secret''" and c: "cx ?st = Some ''engine''" by simp_all
  have p: "?prov (search_request ''secret'' ''engine'' ''tea'' None) = Reply None (Inr (JObj ?doc))"
    by (simp add: constant_provider_def)
  have d: "map_of ?doc ''items'' = Some (JList ?items)" by simp
  have n: "?items \<noteq> []" by simp
  have o: "\<forall>item\<in>set ?items. \<exists>f. item = JObj f" by simp
  from search_results_header_and_numbered_entries
         [where st = ?st and key = "''secret''" and cxv = "''engine''" and prov = ?prov
            and query = "''tea''" and filter_year = None and kvs = ?doc and items = ?items
            and B = sample_builtins and w = fresh_world, OF k c p d n o]
  obtain snippets where
    out: "fst (GoogleSearchTool_forward sample_builtins ?prov ?st ''tea'' None fresh_world) =
            Inr (''## Search Results'' @ [CHR 0x0A] @ join [CHR 0x0A, CHR 0x0A] snippets)"
    and shape: "list_all2 (\<lambda>(i, item) line. \<exists>link. dict_get item ''link'' (JStr ''#'') = Inr link
               \<and> line = str_int (int i + 1) @ ''. '' @ py_str sample_builtins link)
               (enumerate 0 ?items) snippets"
    and lines: "(\<forall>l\<in>set snippets. CHR 0x0A \<notin> set l) \<longrightarrow>
              output_lines (''## Search Results'' @ [CHR 0x0A] @ join [CHR 0x0A, CHR 0x0A] snippets)
                = ''## Search Results'' # spaced snippets
              \<and> length (''## Search Results'' # spaced snippets) = 2 * length ?items"
    by blast
  from shape have s: "snippets = [''1. https://a.example'', ''2. #'']"
    by (auto simp add: list_all2_Cons1 py_str_def str_int_def digit_char_def)
  show ?thesis
    using k c p d out lines unfolding s by simp
qed

section \<open>Parsing the location\<close>

text \<open>
  Claim C4. For the location \<^verbatim>\<open>44.8176,20.4633\<close> the parser returns the two binary64 numbers
  nearest to 44.8176 and to 20.4633, which are 1576879114528437 / 2^45 and
  5759906890923167 / 2^48: the values of the float literals \<^verbatim>\<open>44.8176\<close> and \<^verbatim>\<open>20.4633\<close> that
  the constructor stores as the default coordinate. For \<^verbatim>\<open>not-a-number,also-bad\<close> it returns
  the default coordinate of the tool and raises nothing. So it does for every location
  with two parts of which at least one is not the text of a float, and for every location
  that does not split into exactly two parts at its commas.
\<close>

theorem location_parsed_exactly_or_default:
  "parse_location pt (Some ''44.8176,20.4633'') =
     Inr (Finite False (1576879114528437 / 35184372088832),
          Finite False (5759906890923167 / 281474976710656))
   \<and> parse_location (GooglePlacesTool_init env arg) (Some ''44.8176,20.4633'') =
     Inr (default_lat (GooglePlacesTool_init env arg), default_lng (GooglePlacesTool_init env arg))
   \<and> parse_location pt (Some ''not-a-number,also-bad'') = Inr (default_lat pt, default_lng pt)
   \<and> (split_on CHR '','' loc = [x, y]
        \<and> (float_of_str (strip x) = None \<or> float_of_str (strip y) = None) \<longrightarrow>
       parse_location pt (Some loc) = Inr (default_lat pt, default_lng pt))
   \<and> (length (split_on CHR '','' loc') \<noteq> 2 \<longrightarrow>
       parse_location pt (Some loc') = Inr (default_lat pt, default_lng pt))"
proof -
  have exact: "parse_location t (Some ''44.8176,20.4633'') =
     Inr (Finite False (1576879114528437 / 35184372088832),
          Finite False (5759906890923167 / 281474976710656))" for t
    by (simp add: parse_location_def parse_location_try_exact)
  have dflt: "default_lat (GooglePlacesTool_init env arg) = Finite False (1576879114528437 / 35184372088832)"
    "default_lng (GooglePlacesTool_init env arg) = Finite False (5759906890923167 / 281474976710656)"
    unfolding GooglePlacesTool_init_def float_literal_lat float_literal_lng by simp_all
  have words: "parse_location pt (Some ''not-a-number,also-bad'') = Inr (default_lat pt, default_lng pt)"
    by (simp add: parse_location_def parse_location_try_words)
  show ?thesis
    using exact dflt words parse_location_fallback parse_location_wrong_count by auto
qed

theorem location_parsed_exactly_or_default_witness:
  "split_on CHR '','' ''12.5,north'' = [''12.5'', ''north'']
   \<and> float_of_str (strip ''north'') = None
   \<and> parse_location (GooglePlacesTool_init (env_of []) (Some ''secret'')) (Some ''12.5,north'') =
       Inr (default_lat (GooglePlacesTool_init (env_of []) (Some ''secret'')),
            default_lng (GooglePlacesTool_init (env_of []) (Some ''secret'')))
   \<and> length (split_on CHR '','' ''1,2,3'') \<noteq> 2
   \<and> parse_location (GooglePlacesTool_init (env_of []) (Some ''secret'')) (Some ''1,2,3'') =
       Inr (default_lat (GooglePlacesTool_init (env_of []) (Some ''secret'')),
            default_lng (GooglePlacesTool_init (env_of []) (Some ''secret'')))"
  using location_parsed_exactly_or_default
          [where loc = "''12.5,north''" and x = "''12.5''" and y = "''north''"
             and loc' = "''1,2,3''"
             and pt = "GooglePlacesTool_init (env_of []) (Some ''secret'')"]
        float_of_north
  by simp

text \<open>
  Claim C9. For every location, \<^verbatim>\<open>None\<close> included, \<^verbatim>\<open>_parse_location\<close> returns a pair of
  floats and raises nothing. \<^verbatim>\<open>forward\<close> passes that pair on to \<^verbatim>\<open>_api_request\<close>, where
  neither of the two tests for \<^verbatim>\<open>None\<close> holds, so the pair is used as it is: the request
  that \<^verbatim>\<open>forward\<close> sends is the one built from it. The second of these tests, were its
  branch ever taken, would overwrite the latitude with the default longitude and leave
  the longitude \<^verbatim>\<open>None\<close>.
\<close>

theorem location_always_parsed_defaults_unused:
  "\<exists>lat lng. parse_location pt location = Inr (lat, lng)
     \<and> api_request_defaults pt (Some lat) (Some lng) = (Some lat, Some lng)
     \<and> (google_api_key pt = Some key \<longrightarrow>
          sent (snd (GooglePlacesTool_forward B prov pt query location radius w)) =
            sent w @ [places_request B pt query (Some lat) (Some lng)
                        (case radius of Some r \<Rightarrow> r | None \<Rightarrow> default_radius pt)])
     \<and> api_request_defaults pt lat0 None = (Some (default_lng pt), None)"
proof -
  obtain lat lng where "parse_location pt location = Inr (lat, lng)"
    using parse_location_total by blast
  then show ?thesis by (auto simp add: places_forward_sent api_request_defaults_def)
qed

theorem location_always_parsed_defaults_unused_witness:
  "google_api_key (GooglePlacesTool_init (env_of []) (Some ''secret'')) = Some ''secret''
   \<and> parse_location (GooglePlacesTool_init (env_of []) (Some ''secret'')) (Some ''1,2,3'')
       = Inr (default_lat (GooglePlacesTool_init (env_of []) (Some ''secret'')),
              default_lng (GooglePlacesTool_init (env_of []) (Some ''secret'')))
   \<and> sent (snd (GooglePlacesTool_forward sample_builtins (constant_provider (Request_Failed ''down''))
        (GooglePlacesTool_init (env_of []) (Some ''secret'')) ''tea'' (Some ''1,2,3'') None fresh_world))
       = [places_request sample_builtins (GooglePlacesTool_init (env_of []) (Some ''secret'')) ''tea''
            (Some (default_lat (GooglePlacesTool_init (env_of []) (Some ''secret''))))
            (Some (default_lng (GooglePlacesTool_init (env_of []) (Some ''secret'')))) 5000]"
proof -
  let ?pt = "GooglePlacesTool_init (env_of []) (Some ''secret'')"
  have k: "google_api_key ?pt = Some ''secret''"
    by (simp add: GooglePlacesTool_init_def env_of_def)
  have l: "parse_location ?pt (Some ''1,2,3'') = Inr (default_lat ?pt, default_lng ?pt)"
    by (simp add: parse_location_def parse_location_try_def unpack2_def rbind_def)
  have r: "default_radius ?pt = 5000" by (simp add: GooglePlacesTool_init_def)
  from location_always_parsed_defaults_unused
         [where pt = ?pt and location = "Some ''1,2,3''" and key = "''secret''"
            and B = sample_builtins and prov = "constant_provider (Request_Failed ''down'')"
            and query = "''tea''" and radius = None and w = fresh_world]
  show ?thesis
    using k l r by (auto simp add: fresh_world_def)
qed

end
